theory Spec2Isabelle
  imports Complex_Main "HOL-Library.Char_ord" "HOL-Library.List_Lexorder"
begin

section \<open>Data model\<close>

text \<open>
  pySARAX builds a hexagonal core out of Python objects that refer to each other:
  a \<open>Core\<close> holds rings of \<open>Assembly\<close> objects, an assembly holds \<open>Section\<close> objects, a
  section holds \<open>(size, Material)\<close> pairs, and the same object may be referenced from
  several places (the coolant section of the core is also an element of
  \<open>Core.sections\<close> after \<open>Core.specifyID\<close>). Objects are therefore kept in a store and
  referred to by handles; object identity is handle equality. References in Python never
  dangle, so the store is a total function from handles to objects.

  Heights are Python floats in the source. They are modelled as exact rationals: the
  properties below concern order and equality of heights, not rounding.
\<close>

datatype py_error =
  TypeError | ValueError | RuntimeError | AttributeError | IndexError | NameError

type_synonym mat_ref = nat
type_synonym sec_ref = nat
type_synonym asm_ref = nat

record Material =
  m_name :: string
  m_id :: int

record Section =
  s_name :: string
  s_id :: int
  s_ring :: int
  bounds :: "rat \<times> rat"
  rod :: "(rat \<times> mat_ref) list"
  region :: "(rat \<times> mat_ref) list"
  eqMethod :: string
  scSection :: "sec_ref option"
  s_r :: int
  s_k :: int

record Assembly =
  a_id :: int
  a_type :: string
  location :: string
  a_sections :: "sec_ref list"
  a_r :: int
  a_k :: int

record Heap =
  material_at :: "mat_ref \<Rightarrow> Material"
  section_at :: "sec_ref \<Rightarrow> Section"
  assembly_at :: "asm_ref \<Rightarrow> Assembly"

record Core =
  c_name :: string
  c_ring :: int
  lattice :: "asm_ref list list"
  coolant :: sec_ref
  c_pitch :: rat
  meshgrid :: "rat list"
  completed :: bool
  assemblies :: "asm_ref list"
  sections :: "sec_ref list"
  materials :: "mat_ref list"

section \<open>Axial mesh unifier: \<open>Core.meshing\<close>\<close>

text \<open>
  A Python \<open>set\<close> of heights is modelled as a duplicate-free list; \<open>set.add\<close> is
  \<^const>\<open>List.insert\<close>. The set is only read through \<open>min\<close>, \<open>max\<close>, \<open>sum\<close>, \<open>len\<close>
  and \<open>sorted\<close>, none of which depends on the iteration order.
\<close>

definition collect_heights :: "Heap \<Rightarrow> sec_ref list \<Rightarrow> rat list" where
  "collect_heights h secs =
     sort (remdups (concat (map (\<lambda>s. [fst (bounds (section_at h s)),
                                         snd (bounds (section_at h s))]) secs)))"

definition averageHeight :: "rat list \<Rightarrow> rat" where
  "averageHeight approxBuffer = sum_list approxBuffer / of_nat (length approxBuffer)"

fun approximate :: "rat \<Rightarrow> rat list \<Rightarrow> rat list \<Rightarrow> rat list \<Rightarrow> rat list \<times> rat list" where
  "approximate tolerance mesh approxBuffer [] = (mesh, approxBuffer)"
| "approximate tolerance mesh approxBuffer (height # heights) =
     (if length approxBuffer = 0
      then approximate tolerance mesh (List.insert height approxBuffer) heights
      else
        let lower = Min (set approxBuffer); higher = Max (set approxBuffer) in
        if \<bar>height - lower\<bar> \<le> tolerance \<and> \<bar>height - higher\<bar> \<le> tolerance
        then approximate tolerance mesh (List.insert height approxBuffer) heights
        else approximate tolerance
               (List.insert (averageHeight approxBuffer) mesh) [height] heights)"

definition build_meshgrid :: "rat \<Rightarrow> rat list \<Rightarrow> rat list" where
  "build_meshgrid tolerance heights =
     (case approximate tolerance [] [] heights of
        (mesh, approxBuffer) \<Rightarrow>
          sort (if length approxBuffer > 0
                then List.insert (averageHeight approxBuffer) mesh
                else mesh))"

definition snap_bound :: "rat \<Rightarrow> rat \<Rightarrow> rat \<Rightarrow> rat" where
  "snap_bound tolerance gridHeight b =
     (if \<bar>gridHeight - b\<bar> > 0 \<and> \<bar>gridHeight - b\<bar> \<le> tolerance then gridHeight else b)"

definition snap_section :: "rat \<Rightarrow> rat \<Rightarrow> sec_ref \<Rightarrow> Heap \<Rightarrow> Heap" where
  "snap_section tolerance gridHeight s h =
     h\<lparr>section_at := (section_at h)(s := (section_at h s)
         \<lparr>bounds := (snap_bound tolerance gridHeight (fst (bounds (section_at h s))),
                     snap_bound tolerance gridHeight (snd (bounds (section_at h s))))\<rparr>)\<rparr>"

definition snap_sections :: "rat \<Rightarrow> sec_ref list \<Rightarrow> rat list \<Rightarrow> Heap \<Rightarrow> Heap" where
  "snap_sections tolerance secs mesh h =
     fold (\<lambda>gridHeight. fold (snap_section tolerance gridHeight) secs) mesh h"

text \<open>
  \<open>Core.meshing\<close> returns the mesh and mutates the core and the sections. The last
  statement takes \<open>min\<close> and \<open>max\<close> of the mesh, which raise \<open>ValueError\<close> on an empty
  mesh (a core without sections). The sections read are \<open>self.sections\<close>, the list that
  \<open>Core.specifyID\<close> stores; \<open>np.float\<close> is taken to be \<open>float\<close>, as in the NumPy
  releases that still define it.
\<close>

definition Core_meshing :: "Heap \<Rightarrow> Core \<Rightarrow> rat \<Rightarrow> py_error + (Heap \<times> Core \<times> rat list)" where
  "Core_meshing h c tolerance =
     (let heights = collect_heights h (sections c);
          mesh = build_meshgrid tolerance heights;
          h1 = snap_sections tolerance (sections c) mesh h;
          c1 = c\<lparr>meshgrid := mesh\<rparr>
      in if mesh = [] then Inl ValueError
         else Inr (h1\<lparr>section_at := (section_at h1)(coolant c := (section_at h1 (coolant c))
                       \<lparr>bounds := (Min (set mesh), Max (set mesh))\<rparr>)\<rparr>,
                   c1, mesh))"

text \<open>Adjacent elements of a mesh lie more than \<open>tolerance\<close> apart.\<close>

fun separated :: "rat \<Rightarrow> rat list \<Rightarrow> bool" where
  "separated tolerance (a # b # xs) = (\<bar>b - a\<bar> > tolerance \<and> separated tolerance (b # xs))"
| "separated tolerance xs = True"

text \<open>Concrete stores used to run the model.\<close>

definition empty_material :: Material where
  "empty_material = \<lparr>m_name = [], m_id = -1\<rparr>"

definition new_section :: "string \<Rightarrow> rat \<times> rat \<Rightarrow> Section" where
  "new_section nm bs =
     \<lparr>s_name = nm, s_id = -1, s_ring = 0, bounds = bs, rod = [], region = [],
      eqMethod = ''homo'', scSection = None, s_r = -1, s_k = -1\<rparr>"

definition new_assembly :: "string \<Rightarrow> string \<Rightarrow> sec_ref list \<Rightarrow> Assembly" where
  "new_assembly ty loc secs =
     \<lparr>a_id = -1, a_type = ty, location = loc, a_sections = secs, a_r = -1, a_k = -1\<rparr>"

definition new_core :: "string \<Rightarrow> int \<Rightarrow> rat \<Rightarrow> sec_ref \<Rightarrow> Core" where
  "new_core nm rg p cool =
     \<lparr>c_name = nm, c_ring = rg, lattice = [], coolant = cool, c_pitch = p, meshgrid = [],
      completed = False, assemblies = [], sections = [], materials = []\<rparr>"

definition heap_of_sections :: "Section list \<Rightarrow> Heap" where
  "heap_of_sections ss =
     \<lparr>material_at = (\<lambda>_. empty_material),
      section_at = (\<lambda>i. if i < length ss then ss ! i else new_section [] (0, 0)),
      assembly_at = (\<lambda>_. new_assembly [] [] [])\<rparr>"

definition returned_mesh :: "py_error + (Heap \<times> Core \<times> rat list) \<Rightarrow> rat list option" where
  "returned_mesh r = (case r of Inl e \<Rightarrow> None | Inr (h, c, mesh) \<Rightarrow> Some mesh)"

text \<open>
  Three sections of three assemblies whose lower bounds are 0, 10 and 11, meshed with
  tolerance 10. Section 0 is also the coolant filler of the core.
\<close>

definition close_heap :: Heap where
  "close_heap = heap_of_sections
     [new_section ''a'' (0, 500), new_section ''b'' (10, 500), new_section ''c'' (11, 500)]"

definition close_core :: Core where
  "close_core = (new_core ''core'' 1 1 0)\<lparr>sections := [0, 1, 2]\<rparr>"

section \<open>Run-length layer encoder: \<open>Assembly.toLAVENDER\<close>\<close>

text \<open>
  The source keeps the record as a list of strings, \<open>"{:d}".format(id)\<close> for a single
  cell and \<open>"{:d}*{:d}".format(count, id)\<close> for a run, and reads them back with
  \<open>split('*')\<close> and \<open>int\<close>. The two string shapes are the two constructors of
  \<open>entry\<close>: \<open>'*' in e\<close> is \<open>is_star\<close>, \<open>int(e.split('*')[-1])\<close> is \<open>entry_id\<close> and
  \<open>int(e.split('*')[0])\<close> is \<open>entry_count\<close>. Printing an integer with \<open>{:d}\<close> and
  parsing it with \<open>int\<close> gives the integer back, so nothing is lost.

  \<open>section_loop\<close> is the inner \<open>for sec in self.sections\<close> with its \<open>break\<close>s,
  \<open>fill_coolant\<close> the statements after it, \<open>cell_step\<close> one iteration of the outer loop
  over the mesh cells \<open>(meshgrid[idx], meshgrid[idx+1])\<close>. The function has no
  \<open>raise\<close>; the header carries the assembly id.
\<close>

datatype entry = Plain int | Star int int

fun entry_id :: "entry \<Rightarrow> int" where
  "entry_id (Plain i) = i"
| "entry_id (Star n i) = i"

fun is_star :: "entry \<Rightarrow> bool" where
  "is_star (Plain i) = False"
| "is_star (Star n i) = True"

fun entry_count :: "entry \<Rightarrow> int" where
  "entry_count (Plain i) = i"
| "entry_count (Star n i) = n"

fun section_loop ::
  "Heap \<Rightarrow> rat \<Rightarrow> rat \<Rightarrow> sec_ref list \<Rightarrow> bool \<times> bool \<times> entry list \<Rightarrow> bool \<times> bool \<times> entry list" where
  "section_loop h lo hi [] st = st"
| "section_loop h lo hi (s # secs) (isUnderAssembly, isAboveAssembly, idlist) =
     (let sec = section_at h s;
          isUnderAssembly =
            (if isUnderAssembly \<and> lo \<ge> fst (bounds sec) then False else isUnderAssembly);
          isAboveAssembly =
            (if isAboveAssembly \<and> hi \<le> snd (bounds sec) then False else isAboveAssembly)
      in if fst (bounds sec) \<le> lo \<and> snd (bounds sec) \<ge> hi
         then (if length idlist = 0
               then (isUnderAssembly, isAboveAssembly, idlist @ [Plain (s_id sec)])
               else if entry_id (last idlist) = s_id sec
               then (if is_star (last idlist)
                     then (isUnderAssembly, isAboveAssembly,
                           idlist[length idlist - 1 :=
                             Star (1 + entry_count (last idlist)) (s_id sec)])
                     else (isUnderAssembly, isAboveAssembly,
                           idlist[length idlist - 1 := Star 2 (s_id sec)]))
               else (isUnderAssembly, isAboveAssembly, idlist @ [Plain (s_id sec)]))
         else section_loop h lo hi secs (isUnderAssembly, isAboveAssembly, idlist))"

definition fill_coolant :: "int \<Rightarrow> bool \<times> bool \<times> entry list \<Rightarrow> entry list" where
  "fill_coolant coolant_id st =
     (case st of (isUnderAssembly, isAboveAssembly, idlist) \<Rightarrow>
        let idlist = (if isUnderAssembly then idlist @ [Plain coolant_id]
                      else if isAboveAssembly then idlist @ [Plain coolant_id]
                      else idlist)
        in if (isUnderAssembly \<or> isAboveAssembly) \<and> length idlist > 1
           then (if entry_id (idlist ! (length idlist - 2)) = coolant_id
                 then butlast
                   (if is_star (idlist ! (length idlist - 2))
                    then idlist[length idlist - 2 :=
                           Star (1 + entry_count (idlist ! (length idlist - 2))) coolant_id]
                    else idlist[length idlist - 2 := Star 2 coolant_id])
                 else idlist)
           else idlist)"

definition cell_step :: "Heap \<Rightarrow> sec_ref list \<Rightarrow> int \<Rightarrow> rat \<times> rat \<Rightarrow> entry list \<Rightarrow> entry list" where
  "cell_step h secs coolant_id cell idlist =
     fill_coolant coolant_id (section_loop h (fst cell) (snd cell) secs (True, True, idlist))"

definition mesh_cells :: "rat list \<Rightarrow> (rat \<times> rat) list" where
  "mesh_cells mesh = zip mesh (tl mesh)"

definition Assembly_toLAVENDER ::
  "Heap \<Rightarrow> asm_ref \<Rightarrow> rat list \<Rightarrow> sec_ref \<Rightarrow> py_error + (int \<times> entry list)" where
  "Assembly_toLAVENDER h a mesh cool =
     Inr (a_id (assembly_at h a),
          fold (cell_step h (a_sections (assembly_at h a)) (s_id (section_at h cool)))
               (mesh_cells mesh) [])"

text \<open>
  The identifier that one mesh cell contributes, written without the loops: the id of
  the first section of the assembly whose bounds contain the cell; else the coolant id
  when the cell starts below the lower bound of every section or ends above the upper
  bound of every section; else nothing (the cell cannot be classified). \<open>expand\<close>
  decodes a record into its per-cell identifier sequence.
\<close>

fun expand_entry :: "entry \<Rightarrow> int list" where
  "expand_entry (Plain i) = [i]"
| "expand_entry (Star n i) = replicate (nat n) i"

definition expand :: "entry list \<Rightarrow> int list" where
  "expand idlist = concat (map expand_entry idlist)"

definition cell_ids :: "Heap \<Rightarrow> sec_ref list \<Rightarrow> int \<Rightarrow> rat \<times> rat \<Rightarrow> int list" where
  "cell_ids h secs coolant_id cell =
     (case find (\<lambda>s. fst (bounds (section_at h s)) \<le> fst cell
                    \<and> snd (bounds (section_at h s)) \<ge> snd cell) secs of
        Some s \<Rightarrow> [s_id (section_at h s)]
      | None \<Rightarrow>
          if list_all (\<lambda>s. fst cell < fst (bounds (section_at h s))) secs
             \<or> list_all (\<lambda>s. snd cell > snd (bounds (section_at h s))) secs
          then [coolant_id] else [])"

text \<open>
  The test that decides whether the loop body appends an identifier for a cell
  \<open>(lo, hi)\<close>: some section has \<open>bounds[0] \<le> lo\<close> and \<open>bounds[1] \<ge> hi\<close>, or \<open>lo\<close> lies
  below \<open>bounds[0]\<close> of every section (\<open>isUnderAssembly\<close>), or \<open>hi\<close> lies above \<open>bounds[1]\<close>
  of every section (\<open>isAboveAssembly\<close>). Only one edge of the cell is compared in the last
  two cases, so a cell that overlaps the lowest or the highest section passes the test
  and is filled with the coolant id.
\<close>

definition emits_entry :: "Heap \<Rightarrow> sec_ref list \<Rightarrow> rat \<times> rat \<Rightarrow> bool" where
  "emits_entry h secs cell =
     (list_ex (\<lambda>s. fst (bounds (section_at h s)) \<le> fst cell
                  \<and> snd (bounds (section_at h s)) \<ge> snd cell) secs
      \<or> list_all (\<lambda>s. fst cell < fst (bounds (section_at h s))) secs
      \<or> list_all (\<lambda>s. snd cell > snd (bounds (section_at h s))) secs)"

text \<open>
  Appending one cell identifier to a record, merging it into the last run when the ids
  agree; a record is valid when every run written with \<open>*\<close> has a count of at least 2.
\<close>

definition push :: "entry list \<Rightarrow> int \<Rightarrow> entry list" where
  "push idlist i =
     (if idlist = [] then [Plain i]
      else if entry_id (last idlist) = i
      then butlast idlist @ [Star (if is_star (last idlist) then 1 + entry_count (last idlist) else 2) i]
      else idlist @ [Plain i])"

definition valid_entry :: "entry \<Rightarrow> bool" where
  "valid_entry e = (is_star e \<longrightarrow> entry_count e \<ge> 2)"


definition merge_heap :: Heap where
  "merge_heap =
     (heap_of_sections
        [(new_section ''lower'' (0, 1))\<lparr>s_id := 3\<rparr>,
         (new_section ''upper'' (1, 2))\<lparr>s_id := 3\<rparr>,
         (new_section ''coolant'' (-1, 4))\<lparr>s_id := 7\<rparr>])
     \<lparr>assembly_at := (\<lambda>_. (new_assembly ''driver'' ''01A01'' [0, 1])\<lparr>a_id := 5\<rparr>)\<rparr>"

definition overlap_heap :: Heap where
  "overlap_heap =
     (heap_of_sections
        [(new_section ''fuel'' (0, 1))\<lparr>s_id := 1\<rparr>,
         (new_section ''coolant'' (-1, 1))\<lparr>s_id := 9\<rparr>])
     \<lparr>assembly_at := (\<lambda>_. (new_assembly ''driver'' ''01A01'' [0])\<lparr>a_id := 5\<rparr>)\<rparr>"

section \<open>Structural check: \<open>Assembly.check\<close> and \<open>Core.check\<close>\<close>

text \<open>
  Each \<open>print("Warning: ...")\<close> of the source is a value of \<open>warning\<close>; the checks return
  the warnings in the order they are printed. \<open>Assembly.check\<close> also stores its sections
  sorted by lower bound.
\<close>

datatype warning =
    LatticeRingMismatch nat int
  | RingSizeMismatch nat nat nat
  | AssemblyCheckFailed nat nat
  | SectionMismatch sec_ref asm_ref

fun continuity :: "Heap \<Rightarrow> asm_ref \<Rightarrow> rat option \<Rightarrow> sec_ref list \<Rightarrow> warning list \<times> bool" where
  "continuity h a prev [] = ([], True)"
| "continuity h a prev (s # secs) =
     (case prev of
        None \<Rightarrow> continuity h a (Some (snd (bounds (section_at h s)))) secs
      | Some p \<Rightarrow>
          (case continuity h a (Some (snd (bounds (section_at h s)))) secs of
             (ws, ifpass) \<Rightarrow>
               if p \<noteq> fst (bounds (section_at h s))
               then (SectionMismatch s a # ws, False)
               else (ws, ifpass)))"

definition Assembly_check :: "Heap \<Rightarrow> asm_ref \<Rightarrow> Heap \<times> warning list \<times> bool" where
  "Assembly_check h a =
     (let secs = sort_key (\<lambda>s. fst (bounds (section_at h s))) (a_sections (assembly_at h a));
          h1 = h\<lparr>assembly_at := (assembly_at h)(a := (assembly_at h a)\<lparr>a_sections := secs\<rparr>)\<rparr>
      in (h1, continuity h1 a None secs))"

fun check_ring :: "Heap \<Rightarrow> nat \<Rightarrow> nat \<Rightarrow> asm_ref list \<Rightarrow> Heap \<times> warning list \<times> bool" where
  "check_ring h r k [] = (h, [], True)"
| "check_ring h r k (assembly # ring) =
     (case Assembly_check h assembly of
        (h1, ws, ok) \<Rightarrow>
          (case check_ring h1 r (Suc k) ring of
             (h2, ws', ifpass) \<Rightarrow>
               if \<not> ok then (h2, ws @ [AssemblyCheckFailed (r + 1) (k + 1)] @ ws', False)
               else (h2, ws @ ws', ifpass)))"

fun check_lattice :: "Heap \<Rightarrow> nat \<Rightarrow> asm_ref list list \<Rightarrow> Heap \<times> warning list \<times> bool" where
  "check_lattice h r [] = (h, [], True)"
| "check_lattice h r (ring # rings) =
     (let ref = (if r > 0 then 6 * r else 1) in
      case check_ring h r 0 ring of
        (h1, ws, ok) \<Rightarrow>
          (case check_lattice h1 (Suc r) rings of
             (h2, ws', ifpass) \<Rightarrow>
               if ref \<noteq> length ring
               then (h2, RingSizeMismatch (r + 1) (length ring) ref # ws @ ws', False)
               else (h2, ws @ ws', ok \<and> ifpass)))"

definition Core_check :: "Heap \<Rightarrow> Core \<Rightarrow> Heap \<times> warning list \<times> bool" where
  "Core_check h c =
     (case check_lattice h 0 (lattice c) of
        (h1, ws, ifpass) \<Rightarrow>
          if c_ring c \<noteq> int (length (lattice c))
          then (h1, LatticeRingMismatch (length (lattice c)) (c_ring c) # ws, False)
          else (h1, ws, ifpass))"


section \<open>Canonical identifiers: \<open>Core.specifyID\<close>, \<open>Core.complete\<close>, \<open>Core.addRing\<close>\<close>

text \<open>
  The three Python sets of \<open>specifyID\<close> hold objects and compare them by identity
  (no class defines \<open>__eq__\<close> or \<open>__hash__\<close>); they are duplicate-free lists of handles.
  \<open>section.scSection\<close> may be \<open>None\<close>, so the section set holds optional handles, and
  the sort key \<open>x.eqMethod\<close> raises \<open>AttributeError\<close> on \<open>None\<close>. Python iterates a set
  in an order that depends on object addresses; \<open>sorted\<close> is stable, so that order shows
  only between objects with equal keys. The model iterates in insertion order there, and no
  property below depends on it.
\<close>

definition visit_section ::
  "nat \<Rightarrow> nat \<Rightarrow> sec_ref \<Rightarrow> Heap \<times> sec_ref option list \<times> mat_ref list
     \<Rightarrow> Heap \<times> sec_ref option list \<times> mat_ref list" where
  "visit_section r k section st =
     (case st of (h, secs, mats) \<Rightarrow>
        let secs = (if eqMethod (section_at h section) = ''supercell''
                    then List.insert (scSection (section_at h section)) secs else secs);
            h = h\<lparr>section_at := (section_at h)
                   (section := (section_at h section)\<lparr>s_r := int r, s_k := int k\<rparr>)\<rparr>;
            secs = List.insert (Some section) secs;
            mats = fold (\<lambda>(_, material). List.insert material) (rod (section_at h section)) mats;
            mats = fold (\<lambda>(_, material). List.insert material) (region (section_at h section)) mats
        in (h, secs, mats))"

definition visit_assembly ::
  "nat \<Rightarrow> nat \<Rightarrow> asm_ref \<Rightarrow> Heap \<times> asm_ref list \<times> sec_ref option list \<times> mat_ref list
     \<Rightarrow> Heap \<times> asm_ref list \<times> sec_ref option list \<times> mat_ref list" where
  "visit_assembly r k assembly st =
     (case st of (h, asms, secs, mats) \<Rightarrow>
        let h = h\<lparr>assembly_at := (assembly_at h)
                   (assembly := (assembly_at h assembly)\<lparr>a_r := int r, a_k := int k\<rparr>)\<rparr>;
            asms = List.insert assembly asms
        in case fold (visit_section r k) (a_sections (assembly_at h assembly)) (h, secs, mats) of
             (h, secs, mats) \<Rightarrow> (h, asms, secs, mats))"

definition traverse_lattice ::
  "asm_ref list list \<Rightarrow> Heap \<Rightarrow> Heap \<times> asm_ref list \<times> sec_ref option list \<times> mat_ref list" where
  "traverse_lattice lat h =
     fold (\<lambda>(r, ring). fold (\<lambda>(k, assembly). visit_assembly r k assembly) (enumerate 0 ring))
          (enumerate 0 lat) (h, [], [], [])"

definition assign_assembly_ids :: "asm_ref list \<Rightarrow> Heap \<Rightarrow> Heap" where
  "assign_assembly_ids asms h =
     fold (\<lambda>(i, a) h. h\<lparr>assembly_at := (assembly_at h)
                          (a := (assembly_at h a)\<lparr>a_id := int i + 1\<rparr>)\<rparr>) (enumerate 0 asms) h"

definition assign_section_ids :: "sec_ref list \<Rightarrow> Heap \<Rightarrow> Heap" where
  "assign_section_ids secs h =
     fold (\<lambda>(i, s) h. h\<lparr>section_at := (section_at h)
                          (s := (section_at h s)\<lparr>s_id := int i + 1\<rparr>)\<rparr>) (enumerate 0 secs) h"

definition assign_material_ids :: "mat_ref list \<Rightarrow> Heap \<Rightarrow> Heap" where
  "assign_material_ids mats h =
     fold (\<lambda>(i, m) h. h\<lparr>material_at := (material_at h)
                          (m := (material_at h m)\<lparr>m_id := int i + 1\<rparr>)\<rparr>) (enumerate 0 mats) h"

definition Core_specifyID :: "Heap \<Rightarrow> Core \<Rightarrow> py_error + (Heap \<times> Core)" where
  "Core_specifyID h c =
     (case traverse_lattice (lattice c) h of
        (h, asms, secs, mats) \<Rightarrow>
          let secs = List.insert (Some (coolant c)) secs;
              mats = fold (\<lambda>(_, material). List.insert material)
                          (region (section_at h (coolant c))) mats;
              asms = sort_key (\<lambda>x. location (assembly_at h x)) asms
          in if None \<in> set secs then Inl AttributeError
             else
               let secs = sort_key (\<lambda>x. eqMethod (section_at h x) @ '' '' @ s_name (section_at h x))
                                   (map the secs);
                   mats = sort_key (\<lambda>x. m_name (material_at h x)) mats;
                   h = assign_assembly_ids asms h;
                   h = assign_section_ids secs h;
                   h = assign_material_ids mats h
               in Inr (h, c\<lparr>assemblies := asms, sections := secs, materials := mats\<rparr>))"

definition Core_complete :: "Heap \<Rightarrow> Core \<Rightarrow> warning list \<times> (py_error + (Heap \<times> Core))" where
  "Core_complete h c =
     (case Core_check h c of
        (h, ws, ifpass) \<Rightarrow>
          if \<not> ifpass then (ws, Inl ValueError)
          else (case Core_specifyID h c of
                  Inl e \<Rightarrow> (ws, Inl e)
                | Inr (h, c) \<Rightarrow> (ws, Inr (h, c\<lparr>completed := True\<rparr>))))"

definition Core_addRing :: "Core \<Rightarrow> asm_ref list \<Rightarrow> Core" where
  "Core_addRing c ring = c\<lparr>lattice := lattice c @ [ring]\<rparr>"

text \<open>
  \<open>Core.__init__(self, name, ring, pitch, coolant)\<close> has no default values: a call that
  leaves a parameter out raises \<open>TypeError\<close> before the body runs. An argument that the
  call site does not pass is \<open>None\<close> below. \<open>Core.copy\<close> calls
  \<open>Core(name=name, ring=self.ring)\<close>. \<open>copy.deepcopy\<close> belongs to the Python library and
  is a parameter of the model.
\<close>

definition Core_init ::
  "string option \<Rightarrow> int option \<Rightarrow> rat option \<Rightarrow> sec_ref option \<Rightarrow> py_error + Core" where
  "Core_init name ring pitch cool =
     (case (name, ring, pitch, cool) of
        (Some n, Some r, Some p, Some s) \<Rightarrow> Inr (new_core n r p s)
      | _ \<Rightarrow> Inl TypeError)"

definition Core_copy ::
  "(Heap \<Rightarrow> asm_ref list list \<Rightarrow> Heap \<times> asm_ref list list) \<Rightarrow>
   Heap \<Rightarrow> Core \<Rightarrow> string \<Rightarrow> bool \<Rightarrow> warning list \<times> (py_error + (Heap \<times> Core))" where
  "Core_copy deepcopy_lattice h self name deepcopy =
     (case Core_init (Some name) (Some (c_ring self)) None None of
        Inl e \<Rightarrow> ([], Inl e)
      | Inr coreCopy \<Rightarrow>
          (case (if deepcopy then deepcopy_lattice h (lattice self) else (h, lattice self)) of
             (h, lat) \<Rightarrow> Core_complete h (coreCopy\<lparr>lattice := lat\<rparr>)))"


section \<open>Deck serialisation: \<open>Core.toTULIP\<close>\<close>

text \<open>
  The deck is text in the source. The model keeps the values that the text is formatted
  from and every \<open>raise\<close> on the way: per section the \<open>sc\<close> flag, the section id, the
  ring number and the \<open>(size, material.id)\<close> pairs of rods and regions; per material the
  id and the name; the section and material counts and the run-length compressed
  \<open>geom_kind\<close> list, whose strings \<open>"k"\<close> and \<open>"n*k"\<close> are entries as above.
\<close>

type_synonym section_block = "bool \<times> int \<times> int \<times> (rat \<times> int) list \<times> (rat \<times> int) list"
type_synonym tulip_deck = "nat \<times> nat \<times> entry list \<times> section_block list \<times> (int \<times> string) list"

definition Section_toTULIP :: "Heap \<Rightarrow> sec_ref \<Rightarrow> bool \<Rightarrow> py_error + section_block" where
  "Section_toTULIP h s sc =
     (let self = section_at h s in
      if s_id self = -1 then Inl RuntimeError
      else if s_ring self = -1 \<and> length (rod self) > 0 then Inl RuntimeError
      else Inr (sc, s_id self, s_ring self,
                map (\<lambda>(size, material). (size, m_id (material_at h material))) (rod self),
                map (\<lambda>(size, material). (size, m_id (material_at h material))) (region self)))"

definition Material_toTULIP :: "Heap \<Rightarrow> mat_ref \<Rightarrow> py_error + (int \<times> string)" where
  "Material_toTULIP h m =
     (if m_id (material_at h m) = -1 then Inl RuntimeError
      else Inr (m_id (material_at h m), m_name (material_at h m)))"

definition geom_kind_of :: "string \<Rightarrow> py_error + int" where
  "geom_kind_of m =
     (if m = ''homo'' then Inr 1
      else if m = ''1-D'' then Inr 2
      else if m = ''supercell'' then Inr 3
      else Inl ValueError)"

fun geom_kind_loop :: "Heap \<Rightarrow> sec_ref list \<Rightarrow> entry list \<Rightarrow> py_error + entry list" where
  "geom_kind_loop h [] geom_kind = Inr geom_kind"
| "geom_kind_loop h (sec # secs) geom_kind =
     (case geom_kind_of (eqMethod (section_at h sec)) of
        Inl e \<Rightarrow> Inl e
      | Inr gk \<Rightarrow>
          if length geom_kind > 0 \<and> entry_id (last geom_kind) = gk
          then (if \<not> is_star (last geom_kind)
                then geom_kind_loop h secs (geom_kind[length geom_kind - 1 := Star 2 gk])
                else geom_kind_loop h secs
                       (geom_kind[length geom_kind - 1 :=
                          Star (1 + entry_count (last geom_kind)) gk]))
          else geom_kind_loop h secs (geom_kind @ [Plain gk]))"

fun geometry_loop :: "Heap \<Rightarrow> sec_ref list \<Rightarrow> py_error + section_block list" where
  "geometry_loop h [] = Inr []"
| "geometry_loop h (section # secs) =
     (case Section_toTULIP h section False of
        Inl e \<Rightarrow> Inl e
      | Inr block \<Rightarrow>
          (case (if eqMethod (section_at h section) = ''supercell''
                 then (case scSection (section_at h section) of
                         None \<Rightarrow> Inl AttributeError
                       | Some partner \<Rightarrow>
                           (case Section_toTULIP h partner True of
                              Inl e \<Rightarrow> Inl e | Inr b \<Rightarrow> Inr [block, b]))
                 else Inr [block]) of
             Inl e \<Rightarrow> Inl e
           | Inr blocks \<Rightarrow>
               (case geometry_loop h secs of
                  Inl e \<Rightarrow> Inl e | Inr rest \<Rightarrow> Inr (blocks @ rest))))"

fun material_loop :: "Heap \<Rightarrow> mat_ref list \<Rightarrow> py_error + (int \<times> string) list" where
  "material_loop h [] = Inr []"
| "material_loop h (material # mats) =
     (case Material_toTULIP h material of
        Inl e \<Rightarrow> Inl e
      | Inr b \<Rightarrow> (case material_loop h mats of Inl e \<Rightarrow> Inl e | Inr rest \<Rightarrow> Inr (b # rest)))"

definition Core_toTULIP :: "Heap \<Rightarrow> Core \<Rightarrow> py_error + tulip_deck" where
  "Core_toTULIP h c =
     (if \<not> completed c then Inl RuntimeError
      else case geom_kind_loop h (sections c) [] of
        Inl e \<Rightarrow> Inl e
      | Inr geom_kind \<Rightarrow>
          (case geometry_loop h (sections c) of
             Inl e \<Rightarrow> Inl e
           | Inr blocks \<Rightarrow>
               (case material_loop h (materials c) of
                  Inl e \<Rightarrow> Inl e
                | Inr mats \<Rightarrow>
                    Inr (length (sections c), length (materials c), geom_kind, blocks, mats))))"

text \<open>
  A one-ring core whose only section uses the supercell method with section 1 as its
  partner; section 2 is the coolant filler. \<open>short_core\<close> declares two rings but holds one.
\<close>

definition heap_of :: "Material list \<Rightarrow> Section list \<Rightarrow> Assembly list \<Rightarrow> Heap" where
  "heap_of ms ss as =
     \<lparr>material_at = (\<lambda>i. if i < length ms then ms ! i else empty_material),
      section_at = (\<lambda>i. if i < length ss then ss ! i else new_section [] (0, 0)),
      assembly_at = (\<lambda>i. if i < length as then as ! i else new_assembly [] [] [])\<rparr>"

definition sc_heap :: Heap where
  "sc_heap = heap_of
     [\<lparr>m_name = ''fuel'', m_id = -1\<rparr>, \<lparr>m_name = ''steel'', m_id = -1\<rparr>,
      \<lparr>m_name = ''sodium'', m_id = -1\<rparr>]
     [(new_section ''control'' (0, 1))
        \<lparr>region := [(2, 0)], eqMethod := ''supercell'', scSection := Some 1\<rparr>,
      (new_section ''neighbour'' (0, 1))\<lparr>s_ring := 1, rod := [(1/2, 1)]\<rparr>,
      (new_section ''coolant'' (0, 0))\<lparr>region := [(2, 2)]\<rparr>]
     [new_assembly ''control'' ''01A01'' [0]]"

definition sc_core :: Core where
  "sc_core = (new_core ''core'' 1 2 2)\<lparr>lattice := [[0]]\<rparr>"

definition short_core :: Core where
  "short_core = (new_core ''core'' 2 2 2)\<lparr>lattice := [[0]]\<rparr>"

section \<open>Hexagonal lattice traversal and \<open>Core.toLAVENDER\<close>\<close>

text \<open>
  \<open>row_slots ring l\<close> lists the \<open>(r, k)\<close> pairs that row \<open>l\<close> of the \<open>hex_conf\<close> block reads
  from \<open>self.lattice[r][k]\<close>, in the order of the four passes of the source; \<open>py_range n\<close>
  is \<open>range(n)\<close> and \<open>sgn\<close> is \<open>np.sign\<close>. \<open>all_slots ring\<close> lists the slots of a full
  lattice as \<open>Core.check\<close> counts them: one in ring 0 and \<open>6 r\<close> in ring \<open>r > 0\<close>.
\<close>

definition py_range :: "int \<Rightarrow> int list" where
  "py_range n = [0..n - 1]"

definition row_slots :: "int \<Rightarrow> int \<Rightarrow> (int \<times> int) list" where
  "row_slots ring l =
     (let dis2centerLine = \<bar>ring - 1 - l\<bar> in
        map (\<lambda>j. let r = (ring - 1) - j; k = 5 * r + j - l in (r, k))
            (py_range (ring - 1 - dis2centerLine))
      @ (let r = dis2centerLine; kCenterLine = (if r > 0 then 4 * r else 1) in
           map (\<lambda>j. (r, kCenterLine + (r + j) * sgn (ring - 1 - l))) (py_range dis2centerLine)
         @ [(r, if ring - 1 - l < 0 then 2 * dis2centerLine else 0)])
      @ map (\<lambda>j. let r = 1 + j + dis2centerLine; k = l + r + 1 - ring in (r, k))
            (py_range (ring - 1 - dis2centerLine)))"

definition hex_rows :: "int \<Rightarrow> (int \<times> int) list list" where
  "hex_rows ring = map (row_slots ring) (py_range (2 * ring - 1))"

definition all_slots :: "int \<Rightarrow> (int \<times> int) list" where
  "all_slots ring =
     concat (map (\<lambda>r. map (\<lambda>k. (r, k)) (py_range (if r > 0 then 6 * r else 1)))
                 (py_range ring))"

text \<open>
  Reading \<open>xs[i]\<close> in Python: an index from \<open>-len(xs)\<close> up to \<open>-1\<close> addresses the list
  from its end, and outside \<open>-len(xs) \<dots> len(xs) - 1\<close> the read raises \<open>IndexError\<close>.
  \<open>collect\<close> runs a list of fallible steps up to the first error.
\<close>

definition py_index :: "'a list \<Rightarrow> int \<Rightarrow> py_error + 'a" where
  "py_index xs i =
     (if 0 \<le> i \<and> i < int (length xs) then Inr (xs ! nat i)
      else if - int (length xs) \<le> i \<and> i < 0 then Inr (xs ! nat (int (length xs) + i))
      else Inl IndexError)"

fun collect :: "(py_error + 'a) list \<Rightarrow> py_error + 'a list" where
  "collect [] = Inr []"
| "collect (x # xs) =
     (case x of
        Inl e \<Rightarrow> Inl e
      | Inr v \<Rightarrow> (case collect xs of Inl e \<Rightarrow> Inl e | Inr vs \<Rightarrow> Inr (v # vs)))"

definition lattice_id :: "Heap \<Rightarrow> asm_ref list list \<Rightarrow> int \<times> int \<Rightarrow> py_error + int" where
  "lattice_id h lat slot =
     (case py_index lat (fst slot) of
        Inl e \<Rightarrow> Inl e
      | Inr ring \<Rightarrow>
          (case py_index ring (snd slot) of
             Inl e \<Rightarrow> Inl e
           | Inr a \<Rightarrow> Inr (a_id (assembly_at h a))))"

text \<open>
  The FORMAT-B deck, as the values it is formatted from: the section ids of the
  \<open>mat_file\<close> lines, the layer heights \<open>np.diff(self.meshgrid)\<close>, one run-length record per
  assembly in id order, and the rows of assembly ids of the \<open>hex_conf\<close> block.
\<close>

type_synonym lavender_deck = "int list \<times> rat list \<times> (int \<times> entry list) list \<times> int list list"

definition Core_toLAVENDER :: "Heap \<Rightarrow> Core \<Rightarrow> py_error + lavender_deck" where
  "Core_toLAVENDER h c =
     (if \<not> completed c then Inl RuntimeError
      else
        let mats = map (\<lambda>s. s_id (section_at h s))
                       (sort_key (\<lambda>s. s_id (section_at h s)) (sections c));
            layers = map (\<lambda>(lo, hi). hi - lo) (mesh_cells (meshgrid c))
        in case collect (map (\<lambda>a. Assembly_toLAVENDER h a (meshgrid c) (coolant c))
                             (sort_key (\<lambda>a. a_id (assembly_at h a)) (assemblies c))) of
             Inl e \<Rightarrow> Inl e
           | Inr fa \<Rightarrow>
               (case collect (map (\<lambda>row. collect (map (lattice_id h (lattice c)) row))
                                  (hex_rows (c_ring c))) of
                  Inl e \<Rightarrow> Inl e
                | Inr rows \<Rightarrow> Inr (mats, layers, fa, rows)))"

section \<open>Mesh densifier: \<open>cormesh\<close>\<close>

text \<open>
  \<open>cormesh\<close> reads a FORMAT-B deck line by line. A line is a \<open>layer\<close> line, an \<open>FA_type\<close>
  line or any other line, which is copied. The tokens of a \<open>layer\<close> line are heights,
  written \<open>h\<close> or \<open>n*h\<close>; \<open>float\<close> parses the first and raises \<open>ValueError\<close> on the second.
  The tokens of an \<open>FA_type\<close> line are the entries of the encoder. The file argument is
  \<open>None\<close> when the path does not name an existing file. The last \<open>layer\<close> line wins, and
  without one the name \<open>height_layer\<close> is unbound. \<open>round(x, 4)\<close> is rounding to four
  decimals, ties to even, on exact rationals.
\<close>

datatype height_token = H rat | HRun int rat

datatype deck_line =
    LayerLine int "height_token list"
  | FALine int "entry list"
  | OtherLine string

fun is_layer :: "deck_line \<Rightarrow> bool" where
  "is_layer (LayerLine n ts) = True"
| "is_layer l = False"

fun parse_height :: "height_token \<Rightarrow> py_error + rat" where
  "parse_height (H x) = Inr x"
| "parse_height (HRun n x) = Inl ValueError"

fun parse_run :: "entry \<Rightarrow> int \<times> int" where
  "parse_run (Plain mat) = (1, mat)"
| "parse_run (Star num mat) = (num, mat)"

fun fa_layers_of :: "deck_line list \<Rightarrow> (int \<times> int) list list" where
  "fa_layers_of [] = []"
| "fa_layers_of (FALine i ts # ls) = map parse_run ts # fa_layers_of ls"
| "fa_layers_of (l # ls) = fa_layers_of ls"

definition py_round4 :: "rat \<Rightarrow> rat" where
  "py_round4 x =
     (let y = x * 10000; f = \<lfloor>y\<rfloor>; d = y - of_int f
      in of_int (if d < 1 / 2 then f else if d > 1 / 2 then f + 1
                 else if even f then f else f + 1) / 10000)"

fun densify :: "rat \<Rightarrow> rat list \<Rightarrow> rat list \<times> int list" where
  "densify max_cell_height [] = ([], [])"
| "densify max_cell_height (height # heights) =
     (case densify max_cell_height heights of
        (height_layer_dense, factors_dense) \<Rightarrow>
          if height \<le> max_cell_height
          then (height # height_layer_dense, 0 # factors_dense)
          else
            let factor = \<lceil>height / max_cell_height\<rceil>;
                height_dense = py_round4 (height / of_int factor)
            in (replicate (nat factor) height_dense @ height_layer_dense,
                (factor - 1) # factors_dense))"

fun print_loop :: "rat \<Rightarrow> int \<Rightarrow> rat list \<Rightarrow> height_token list \<Rightarrow> height_token list" where
  "print_loop prev cnt [] slist = slist @ [H prev]"
| "print_loop prev cnt (elem # ls) slist =
     (if elem = prev then print_loop prev (cnt + 1) ls slist
      else print_loop elem 1 ls (slist @ [if cnt = 1 then H prev else HRun cnt prev]))"

definition print_list :: "rat list \<Rightarrow> height_token list" where
  "print_list ls = (if length ls = 0 then [] else print_loop (ls ! 0) 0 ls [])"

definition py_prefix :: "'a list \<Rightarrow> int \<Rightarrow> 'a list" where
  "py_prefix xs k = (if 0 \<le> k then take (nat k) xs else take (nat (int (length xs) + k)) xs)"

fun write_runs :: "int list \<Rightarrow> int \<Rightarrow> (int \<times> int) list \<Rightarrow> entry list" where
  "write_runs factors_dense cnt [] = []"
| "write_runs factors_dense cnt ((num, mat) # runs) =
     (let factor = sum_list (py_prefix factors_dense (cnt + num))
                   - sum_list (py_prefix factors_dense cnt);
          cnt = cnt + num;
          num = (if factor > 0 then num + factor else num)
      in (if num > 1 then Star num mat else Plain mat) # write_runs factors_dense cnt runs)"

fun write_lines ::
  "rat list \<Rightarrow> int list \<Rightarrow> (int \<times> int) list list \<Rightarrow> int \<Rightarrow> deck_line list \<Rightarrow> deck_line list" where
  "write_lines dense factors fa_layers fa_idx [] = []"
| "write_lines dense factors fa_layers fa_idx (LayerLine n ts # ls) =
     LayerLine (int (length dense)) (print_list dense)
       # write_lines dense factors fa_layers fa_idx ls"
| "write_lines dense factors fa_layers fa_idx (OtherLine s # ls) =
     OtherLine s # write_lines dense factors fa_layers fa_idx ls"
| "write_lines dense factors fa_layers fa_idx (FALine i ts # ls) =
     FALine (fa_idx + 1 + 1) (write_runs factors 0 (fa_layers ! nat (fa_idx + 1)))
       # write_lines dense factors fa_layers (fa_idx + 1) ls"

definition cormesh :: "deck_line list option \<Rightarrow> rat \<Rightarrow> py_error + deck_line list" where
  "cormesh lavender_file max_cell_height =
     (case lavender_file of
        None \<Rightarrow> Inl RuntimeError
      | Some src \<Rightarrow>
          if max_cell_height \<le> 0 then Inl ValueError
          else
            (case filter is_layer src of
               [] \<Rightarrow> Inl NameError
             | layers \<Rightarrow>
                 (case last layers of
                    LayerLine n ts \<Rightarrow>
                      (case collect (map parse_height ts) of
                         Inl e \<Rightarrow> Inl e
                       | Inr height_layer \<Rightarrow>
                           (case densify max_cell_height height_layer of
                              (height_layer_dense, factors_dense) \<Rightarrow>
                                Inr (write_lines height_layer_dense factors_dense
                                       (fa_layers_of src) (-1) src)))
                  | _ \<Rightarrow> Inl NameError)))"

text \<open>
  What a deck means: the expanded layer heights of each \<open>layer\<close> line and the expanded
  per-cell identifiers of each \<open>FA_type\<close> line. \<open>uniform_deck\<close> has two layers of height
  \<open>0.5\<close> and one assembly.
\<close>

fun expand_height :: "height_token \<Rightarrow> rat list" where
  "expand_height (H x) = [x]"
| "expand_height (HRun n x) = replicate (nat n) x"

fun layer_heights :: "deck_line list \<Rightarrow> rat list list" where
  "layer_heights [] = []"
| "layer_heights (LayerLine n ts # ls) = concat (map expand_height ts) # layer_heights ls"
| "layer_heights (l # ls) = layer_heights ls"

fun fa_cells :: "deck_line list \<Rightarrow> int list list" where
  "fa_cells [] = []"
| "fa_cells (FALine i ts # ls) = expand ts # fa_cells ls"
| "fa_cells (l # ls) = fa_cells ls"

definition uniform_deck :: "deck_line list" where
  "uniform_deck = [OtherLine ''GEOMETRY:'', LayerLine 2 [H (1/2), H (1/2)], FALine 1 [Star 2 7]]"

text \<open>
  A core is unified with respect to a tolerance when its stored mesh is not empty, is
  strictly increasing with adjacent heights more than the tolerance apart, the bound
  heights of \<open>Core.sections\<close> are exactly the mesh heights, and the coolant section spans
  the mesh. The example is a two-section assembly with its coolant, already meshed.
\<close>

definition unified :: "rat \<Rightarrow> Heap \<Rightarrow> Core \<Rightarrow> bool" where
  "unified tolerance h c =
     (meshgrid c \<noteq> []
      \<and> sorted_wrt (<) (meshgrid c)
      \<and> separated tolerance (meshgrid c)
      \<and> collect_heights h (sections c) = meshgrid c
      \<and> bounds (section_at h (coolant c)) = (Min (set (meshgrid c)), Max (set (meshgrid c))))"

definition unified_heap :: Heap where
  "unified_heap = heap_of_sections
     [new_section ''lower'' (0, 10), new_section ''upper'' (10, 20),
      new_section ''coolant'' (0, 20)]"

definition unified_core :: Core where
  "unified_core = (new_core ''core'' 1 1 2)\<lparr>sections := [0, 1, 2], meshgrid := [0, 10, 20]\<rparr>"

section \<open>Properties of the mesh unifier\<close>

lemma distinct_List_insert: "distinct xs \<Longrightarrow> distinct (List.insert x xs)"
  by (simp add: List.insert_def)

lemma approximate_distinct:
  "distinct mesh \<Longrightarrow> distinct (fst (approximate tolerance mesh buf heights))"
proof (induction heights arbitrary: mesh buf)
  case Nil
  then show ?case by simp
next
  case (Cons height heights)
  then show ?case
    by (simp add: Let_def distinct_List_insert)
qed

lemma build_meshgrid_strict: "sorted_wrt (<) (build_meshgrid tolerance heights)"
proof -
  obtain mesh buf where a: "approximate tolerance [] [] heights = (mesh, buf)"
    by (cases "approximate tolerance [] [] heights")
  have "distinct (fst (approximate tolerance [] [] heights))"
    by (rule approximate_distinct) simp
  with a have "distinct mesh" by simp
  then show ?thesis
    by (simp add: build_meshgrid_def a strict_sorted_iff distinct_List_insert)
qed

lemma close_heights: "collect_heights close_heap (sections close_core) = [0, 10, 11, 500]"
  by (simp add: collect_heights_def close_heap_def close_core_def heap_of_sections_def
      new_section_def new_core_def)

lemma close_mesh: "build_meshgrid 10 [0, 10, 11, 500] = [5, 11, 500]"
  by (simp add: build_meshgrid_def averageHeight_def)

lemma close_returned:
  "returned_mesh (Core_meshing close_heap close_core 10) = Some [5, 11, 500]"
  by (simp add: returned_mesh_def Core_meshing_def Let_def close_heights close_mesh)

text \<open>
  C1 (as amended). Whenever \<open>Core.meshing\<close> returns, the mesh it returns and stores in
  the core is sorted strictly increasing. Nothing is promised about the distance between
  adjacent mesh elements: they are means of clusters and may lie within the tolerance of
  each other.
\<close>

theorem meshing_strictly_increasing:
  "Core_meshing h c tolerance = Inr (h', c', mesh) \<Longrightarrow>
     sorted_wrt (<) mesh \<and> meshgrid c' = mesh"
  by (auto simp: Core_meshing_def Let_def build_meshgrid_strict split: if_splits)

theorem meshing_strictly_increasing_witness:
  "returned_mesh (Core_meshing close_heap close_core 10) = Some [5, 11, 500]
   \<and> sorted_wrt (<) [5, 11, 500 :: rat]"
proof -
  obtain h' c' mesh where r: "Core_meshing close_heap close_core 10 = Inr (h', c', mesh)"
    using close_returned by (auto simp: returned_mesh_def split: sum.splits)
  from meshing_strictly_increasing [OF r] have "sorted_wrt (<) mesh" by simp
  moreover from r close_returned have "mesh = [5, 11, 500]"
    by (simp add: returned_mesh_def)
  ultimately show ?thesis using close_returned by simp
qed

text \<open>
  C1 as stated fails: heights 0, 10, 11 and 500 with tolerance 10 cluster into
  \<open>{0, 10}\<close>, \<open>{11}\<close> and \<open>{500}\<close>; the means 5 and 11 are adjacent in the mesh and only
  6 apart.
\<close>

theorem meshing_separation_counterexample:
  "returned_mesh (Core_meshing close_heap close_core 10) = Some [5, 11, 500]
   \<and> \<not> separated 10 [5, 11, 500]"
  by (simp add: returned_mesh_def Core_meshing_def Let_def close_heights close_mesh)

section \<open>Properties of the run-length encoder\<close>

lemma update_last: "xs \<noteq> [] \<Longrightarrow> xs[length xs - Suc 0 := y] = butlast xs @ [y]"
  by (induction xs rule: rev_induct) auto

lemma section_loop_eq:
  "section_loop h lo hi secs (u, a, idlist) =
     (case find (\<lambda>s. fst (bounds (section_at h s)) \<le> lo
                    \<and> snd (bounds (section_at h s)) \<ge> hi) secs of
        Some s \<Rightarrow> (False, False, push idlist (s_id (section_at h s)))
      | None \<Rightarrow> (u \<and> list_all (\<lambda>s. lo < fst (bounds (section_at h s))) secs,
                 a \<and> list_all (\<lambda>s. hi > snd (bounds (section_at h s))) secs, idlist))"
proof (induction secs arbitrary: u a)
  case Nil
  then show ?case by simp
next
  case (Cons s secs)
  show ?case
  proof (cases "fst (bounds (section_at h s)) \<le> lo \<and> snd (bounds (section_at h s)) \<ge> hi")
    case True
    then show ?thesis
      by (auto simp: Let_def push_def update_last)
  next
    case False
    then have step: "section_loop h lo hi (s # secs) (u, a, idlist) =
        section_loop h lo hi secs
          (u \<and> lo < fst (bounds (section_at h s)),
           a \<and> snd (bounds (section_at h s)) < hi, idlist)"
      by (auto simp: Let_def not_le)
    from False have f: "find (\<lambda>s. fst (bounds (section_at h s)) \<le> lo
                    \<and> snd (bounds (section_at h s)) \<ge> hi) (s # secs)
       = find (\<lambda>s. fst (bounds (section_at h s)) \<le> lo
                    \<and> snd (bounds (section_at h s)) \<ge> hi) secs"
      by auto
    show ?thesis
      unfolding step f Cons.IH by (simp add: conj_assoc split: option.splits)
  qed
qed

lemma fill_coolant_push:
  "fill_coolant cid (u, a, idlist) = (if u \<or> a then push idlist cid else idlist)"
proof (cases "idlist = []")
  case True
  then show ?thesis by (auto simp: fill_coolant_def push_def)
next
  case False
  then obtain ys y where "idlist = ys @ [y]"
    by (metis rev_exhaust)
  then show ?thesis
    by (auto simp: fill_coolant_def push_def Let_def nth_append list_update_append
        butlast_append)
qed

lemma cell_step_eq:
  "cell_step h secs cid cell idlist = fold (\<lambda>i l. push l i) (cell_ids h secs cid cell) idlist"
  by (auto simp: cell_step_def cell_ids_def section_loop_eq fill_coolant_push push_def
      split: option.splits)

lemma expand_append: "expand (xs @ ys) = expand xs @ expand ys"
  by (simp add: expand_def)

lemma push_snoc:
  "push (ys @ [y]) i =
     (if entry_id y = i
      then ys @ [Star (if is_star y then 1 + entry_count y else 2) i]
      else ys @ [y, Plain i])"
  by (simp add: push_def)

lemma replicate_nat_succ: "0 \<le> n \<Longrightarrow> replicate (nat (1 + n)) x = replicate (nat n) x @ [x]"
proof -
  assume "0 \<le> n"
  then have "nat (1 + n) = Suc (nat n)" by simp
  then show ?thesis by (simp only: replicate_Suc replicate_append_same)
qed

lemma expand_bump:
  "valid_entry y \<Longrightarrow> entry_id y = i \<Longrightarrow>
     expand_entry (Star (if is_star y then 1 + entry_count y else 2) i) = expand_entry y @ [i]"
proof (cases y)
  case (Plain j)
  assume "entry_id y = i"
  with Plain show ?thesis by (simp add: numeral_2_eq_2)
next
  case (Star n j)
  assume "valid_entry y" "entry_id y = i"
  with Star have "0 \<le> n" "j = i" by (simp_all add: valid_entry_def)
  with Star replicate_nat_succ [of n i] show ?thesis by simp
qed

lemma push_expand:
  assumes "list_all valid_entry idlist"
  shows "expand (push idlist i) = expand idlist @ [i] \<and> list_all valid_entry (push idlist i)"
proof (cases idlist rule: rev_cases)
  case Nil
  then show ?thesis by (simp add: push_def expand_def valid_entry_def)
next
  case (snoc ys y)
  with assms have v: "valid_entry y" "list_all valid_entry ys" by simp_all
  show ?thesis
  proof (cases "entry_id y = i")
    case True
    have "valid_entry (Star (if is_star y then 1 + entry_count y else 2) i)"
      using v(1) by (auto simp: valid_entry_def)
    with True v expand_bump [OF v(1) True] show ?thesis
      by (simp add: snoc push_snoc expand_def)
  next
    case False
    with v show ?thesis
      by (simp add: snoc push_snoc expand_def valid_entry_def)
  qed
qed

lemma push_distinct_adj:
  assumes "distinct_adj (map entry_id idlist)"
  shows "distinct_adj (map entry_id (push idlist i))"
proof (cases idlist rule: rev_cases)
  case Nil
  then show ?thesis by (simp add: push_def)
next
  case (snoc ys y)
  with assms have d: "distinct_adj (map entry_id ys @ [entry_id y])" by simp
  show ?thesis
  proof (cases "entry_id y = i")
    case True
    with d show ?thesis by (simp add: snoc push_snoc)
  next
    case False
    have "distinct_adj ((map entry_id ys @ [entry_id y]) @ [i])"
      using d False by (subst distinct_adj_append_iff) simp
    then show ?thesis using False by (simp add: snoc push_snoc)
  qed
qed

lemma fold_push_invariant:
  "list_all valid_entry idlist \<Longrightarrow> distinct_adj (map entry_id idlist) \<Longrightarrow>
     expand (fold (\<lambda>i l. push l i) is idlist) = expand idlist @ is
     \<and> list_all valid_entry (fold (\<lambda>i l. push l i) is idlist)
     \<and> distinct_adj (map entry_id (fold (\<lambda>i l. push l i) is idlist))"
proof (induction "is" arbitrary: idlist)
  case Nil
  then show ?case by simp
next
  case (Cons i "is")
  have a: "list_all valid_entry (push idlist i)"
    and b: "expand (push idlist i) = expand idlist @ [i]"
    using push_expand [OF Cons.prems(1), of i] by simp_all
  have c: "distinct_adj (map entry_id (push idlist i))"
    by (rule push_distinct_adj [OF Cons.prems(2)])
  from Cons.IH [OF a c] b show ?case by simp
qed

lemma cells_fold_invariant:
  "list_all valid_entry idlist \<Longrightarrow> distinct_adj (map entry_id idlist) \<Longrightarrow>
     expand (fold (cell_step h secs cid) cs idlist)
       = expand idlist @ concat (map (cell_ids h secs cid) cs)
     \<and> list_all valid_entry (fold (cell_step h secs cid) cs idlist)
     \<and> distinct_adj (map entry_id (fold (cell_step h secs cid) cs idlist))"
proof (induction cs arbitrary: idlist)
  case Nil
  then show ?case by simp
next
  case (Cons c cs)
  from fold_push_invariant [OF Cons.prems, of "cell_ids h secs cid c"]
  have a: "list_all valid_entry (cell_step h secs cid c idlist)"
    and b: "expand (cell_step h secs cid c idlist) = expand idlist @ cell_ids h secs cid c"
    and d: "distinct_adj (map entry_id (cell_step h secs cid c idlist))"
    by (simp_all add: cell_step_eq)
  from Cons.IH [OF a d] b show ?case by simp
qed

lemma toLAVENDER_merge_example:
  "Assembly_toLAVENDER merge_heap 0 [-1, 0, 1, 2, 3, 4] 2 = Inr (5, [Plain 7, Star 2 3, Star 2 7])"
  by (simp add: Assembly_toLAVENDER_def merge_heap_def heap_of_sections_def
      new_section_def new_assembly_def mesh_cells_def cell_step_def fill_coolant_def Let_def)



text \<open>
  C3. The record written by \<open>Assembly.toLAVENDER\<close> never has two adjacent runs with the
  same identifier, and decoding it gives back the per-cell identifier sequence: cells
  that resolve to the same id, coolant cells included, are merged into one run. This
  holds for every assembly and mesh, in particular for contiguous, aligned ones.
\<close>

theorem toLAVENDER_merges_equal_runs:
  "\<exists>idlist. Assembly_toLAVENDER h a mesh cool = Inr (a_id (assembly_at h a), idlist)
      \<and> distinct_adj (map entry_id idlist)
      \<and> expand idlist =
          concat (map (cell_ids h (a_sections (assembly_at h a)) (s_id (section_at h cool)))
                      (mesh_cells mesh))"
  using cells_fold_invariant [of "[]" h "a_sections (assembly_at h a)"
      "s_id (section_at h cool)" "mesh_cells mesh"]
  by (simp add: Assembly_toLAVENDER_def expand_def)



lemma toLAVENDER_overlap_example:
  "emits_entry overlap_heap [0] (-1, 1/2)
   \<and> Assembly_toLAVENDER overlap_heap 0 [-1, 1/2, 1] 1 = Inr (5, [Plain 9, Plain 1])"
  by (simp add: emits_entry_def Assembly_toLAVENDER_def overlap_heap_def heap_of_sections_def
      new_section_def new_assembly_def mesh_cells_def cell_step_def fill_coolant_def Let_def)



section \<open>Properties of checking, identifiers and serialisation\<close>

lemma complete_short_parts:
  "fst (Core_complete sc_heap short_core) = [LatticeRingMismatch 1 2]
   \<and> isl (snd (Core_complete sc_heap short_core))
   \<and> projl (snd (Core_complete sc_heap short_core)) = ValueError"
  by code_simp

lemma check_short: "\<not> snd (snd (Core_check sc_heap short_core))"
  by code_simp

text \<open>
  C5 (as amended). When the structural check fails, \<open>Core.complete\<close> has printed the
  warnings of the check and raises \<open>ValueError\<close>: identifiers are not assigned and the core
  is not completed.
\<close>

theorem complete_raises_on_failed_check:
  "\<not> snd (snd (Core_check h c)) \<Longrightarrow>
     Core_complete h c = (fst (snd (Core_check h c)), Inl ValueError)"
  by (cases "Core_check h c") (auto simp: Core_complete_def)

theorem complete_raises_on_failed_check_witness:
  "\<not> snd (snd (Core_check sc_heap short_core))
   \<and> Core_complete sc_heap short_core
       = (fst (snd (Core_check sc_heap short_core)), Inl ValueError)"
  using complete_raises_on_failed_check [OF check_short] check_short by simp

text \<open>
  C5 as stated fails: a core that declares two rings and holds one, with a contiguous
  assembly, gets the ring-count warning and then \<open>ValueError\<close>.
\<close>

theorem complete_ring_mismatch_counterexample:
  "Core_complete sc_heap short_core = ([LatticeRingMismatch 1 2], Inl ValueError)"
  using complete_short_parts
  by (cases "Core_complete sc_heap short_core"; cases "snd (Core_complete sc_heap short_core)")
     auto

text \<open>
  C6, evaluated where it fails: section 0 uses the supercell method with partner
  section 1, which is not placed in the lattice. \<open>Core.specifyID\<close> gives the partner the
  id 2, and leaves the material of the partner's rod (material 1) at the unset id \<open>-1\<close>.
\<close>

theorem specifyID_partner_material_unassigned:
  "\<not> isl (Core_specifyID sc_heap sc_core)
   \<and> s_id (section_at (fst (projr (Core_specifyID sc_heap sc_core))) 1) = 2
   \<and> m_id (material_at (fst (projr (Core_specifyID sc_heap sc_core))) 1) = -1"
  by code_simp

text \<open>
  C7 (as amended). \<open>Core.addRing\<close> only appends the ring to the lattice. The completed
  flag and the lists of numbered assemblies, sections and materials stay as they were, no
  object is touched, and \<open>Core.toTULIP\<close> returns what it returned before the change.
\<close>

theorem addRing_keeps_identifiers:
  "completed (Core_addRing c ring) = completed c
   \<and> assemblies (Core_addRing c ring) = assemblies c
   \<and> sections (Core_addRing c ring) = sections c
   \<and> materials (Core_addRing c ring) = materials c
   \<and> Core_toTULIP h (Core_addRing c ring) = Core_toTULIP h c"
  by (simp add: Core_addRing_def Core_toTULIP_def cong: sum.case_cong)

text \<open>
  C7 as stated fails: after \<open>Core.complete\<close>, adding a second ring leaves the core
  completed and \<open>Core.toTULIP\<close> returns a deck.
\<close>

theorem addRing_serialisation_counterexample:
  "\<not> isl (snd (Core_complete sc_heap sc_core))
   \<and> completed (snd (projr (snd (Core_complete sc_heap sc_core))))
   \<and> Core_toTULIP (fst (projr (snd (Core_complete sc_heap sc_core))))
        (Core_addRing (snd (projr (snd (Core_complete sc_heap sc_core)))) [0, 0, 0, 0, 0, 0])
      = Inr (3, 2, [Star 2 1, Plain 3],
          [(False, 1, 0, [], [(2, 2)]), (False, 2, 1, [(1 / 2, - 1)], []),
           (False, 3, 0, [], [(2, 1)]), (True, 2, 1, [(1 / 2, - 1)], [])],
          [(1, ''fuel''), (2, ''sodium'')])"
  by code_simp

text \<open>
  C10. \<open>Core.copy\<close> raises \<open>TypeError\<close> for every core, name and \<open>deepcopy\<close> flag: the
  constructor call lacks \<open>pitch\<close> and \<open>coolant\<close>, so no copy is ever returned.
\<close>

theorem Core_copy_raises_TypeError:
  "Core_copy deepcopy_lattice h self name deepcopy = ([], Inl TypeError)"
  by (simp add: Core_copy_def Core_init_def)

section \<open>Properties of the lattice traversal\<close>

lemma length_py_range [simp]: "length (py_range n) = nat n"
  by (simp add: py_range_def)

lemma set_py_range [simp]: "set (py_range n) = {0..n - 1}"
  by (simp add: py_range_def)

lemma distinct_py_range [simp]: "distinct (py_range n)"
  by (simp add: py_range_def)

lemma length_row_slots:
  "0 \<le> l \<Longrightarrow> l \<le> 2 * n \<Longrightarrow> int (length (row_slots (n + 1) l)) = 2 * n + 1 - \<bar>n - l\<bar>"
  by (auto simp: row_slots_def Let_def)

lemma sum_rows: "(\<Sum>l\<in>{n - int m..n + int m}. 2 * n + 1 - \<bar>n - l\<bar>)
    = (2 * int m + 1) * (2 * n + 1) - int m * (int m + 1)"
proof (induction m)
  case 0
  then show ?case by simp
next
  case (Suc m)
  have s: "{n - int (Suc m)..n + int (Suc m)}
      = insert (n - int m - 1) (insert (n + int m + 1) {n - int m..n + int m})"
    by auto
  have "(\<Sum>l\<in>{n - int (Suc m)..n + int (Suc m)}. 2 * n + 1 - \<bar>n - l\<bar>)
      = (2 * n + 1 - \<bar>int m + 1\<bar>) + ((2 * n + 1 - \<bar>- int m - 1\<bar>)
          + (\<Sum>l\<in>{n - int m..n + int m}. 2 * n + 1 - \<bar>n - l\<bar>))"
    unfolding s by simp
  also have "\<dots> = (2 * int (Suc m) + 1) * (2 * n + 1) - int (Suc m) * (int (Suc m) + 1)"
    unfolding Suc.IH by (simp add: algebra_simps)
  finally show ?case .
qed

lemma length_concat_sum:
  "distinct xs \<Longrightarrow> int (length (concat (map f xs))) = (\<Sum>x\<in>set xs. int (length (f x)))"
  by (induction xs) (simp_all)

lemma length_hex_rows_concat:
  assumes "0 \<le> n"
  shows "int (length (concat (hex_rows (n + 1)))) = 3 * n * n + 3 * n + 1"
proof -
  have "int (length (concat (hex_rows (n + 1))))
      = (\<Sum>l\<in>{0..2 * n}. int (length (row_slots (n + 1) l)))"
    by (simp add: hex_rows_def length_concat_sum)
  also have "\<dots> = (\<Sum>l\<in>{0..2 * n}. 2 * n + 1 - \<bar>n - l\<bar>)"
    by (rule sum.cong) (simp_all add: length_row_slots)
  also have "\<dots> = (\<Sum>l\<in>{n - int (nat n)..n + int (nat n)}. 2 * n + 1 - \<bar>n - l\<bar>)"
    using assms by simp
  also have "\<dots> = (2 * int (nat n) + 1) * (2 * n + 1) - int (nat n) * (int (nat n) + 1)"
    by (rule sum_rows)
  also have "\<dots> = 3 * n * n + 3 * n + 1"
    using assms by (simp add: algebra_simps)
  finally show ?thesis .
qed


lemma part1:
  "0 \<le> j \<Longrightarrow> j < ring - 1 - \<bar>ring - 1 - l\<bar> \<Longrightarrow>
     (ring - 1 - j, 5 * (ring - 1 - j) + j - l) \<in> set (row_slots ring l)"
  by (simp add: row_slots_def Let_def image_iff) 

lemma part2:
  "0 \<le> j \<Longrightarrow> j < \<bar>ring - 1 - l\<bar> \<Longrightarrow>
     (\<bar>ring - 1 - l\<bar>, 4 * \<bar>ring - 1 - l\<bar> + (\<bar>ring - 1 - l\<bar> + j) * sgn (ring - 1 - l))
       \<in> set (row_slots ring l)"
  by (auto simp: row_slots_def Let_def image_iff)

lemma part3:
  "(\<bar>ring - 1 - l\<bar>, if ring - 1 - l < 0 then 2 * \<bar>ring - 1 - l\<bar> else 0) \<in> set (row_slots ring l)"
  by (simp add: row_slots_def Let_def)

lemma part4:
  "0 \<le> j \<Longrightarrow> j < ring - 1 - \<bar>ring - 1 - l\<bar> \<Longrightarrow>
     (1 + j + \<bar>ring - 1 - l\<bar>, l + (1 + j + \<bar>ring - 1 - l\<bar>) + 1 - ring) \<in> set (row_slots ring l)"
  by (simp add: row_slots_def Let_def image_iff)

lemma covered:
  assumes "0 \<le> r" "r \<le> n" "0 \<le> k" "k < (if r > 0 then 6 * r else 1)"
  shows "\<exists>l. 0 \<le> l \<and> l \<le> 2 * n \<and> (r, k) \<in> set (row_slots (n + 1) l)"
proof -
  consider (centre) "r = 0" "k = 0"
    | (a) "r > 0" "k = 0"
    | (b) "r > 0" "1 \<le> k" "k \<le> r"
    | (c) "r + 1 \<le> k" "k \<le> 2 * r - 1"
    | (d) "r > 0" "k = 2 * r"
    | (e) "2 * r + 1 \<le> k" "k \<le> 3 * r"
    | (f) "3 * r + 1 \<le> k" "k \<le> 4 * r - 1"
    | (g) "r > 0" "4 * r \<le> k" "k \<le> 5 * r - 1"
    | (h) "r > 0" "5 * r \<le> k" "k \<le> 6 * r - 1"
    using assms by (cases "r > 0") (simp_all, linarith)
  then show ?thesis
  proof cases
    case centre
    with part3 [of "n + 1" n] assms show ?thesis
      by (intro exI [of _ n]) simp
  next
    case a
    with part3 [of "n + 1" "n - r"] assms show ?thesis
      by (intro exI [of _ "n - r"]) simp
  next
    case b
    with part4 [of "k - 1" "n + 1" "n - (r - k)"] assms show ?thesis
      by (intro exI [of _ "n - (r - k)"]) simp
  next
    case c
    with part4 [of "2 * r - 1 - k" "n + 1" "n + (k - r)"] assms show ?thesis
      by (intro exI [of _ "n + (k - r)"]) simp
  next
    case d
    with part3 [of "n + 1" "n + r"] assms show ?thesis
      by (intro exI [of _ "n + r"]) simp
  next
    case e
    with part2 [of "3 * r - k" "n + 1" "n + r"] assms show ?thesis
      by (intro exI [of _ "n + r"]) (simp add: algebra_simps)
  next
    case f
    with part1 [of "n - r" "n + 1" "n + (4 * r - k)"] assms show ?thesis
      by (intro exI [of _ "n + (4 * r - k)"]) (simp add: algebra_simps)
  next
    case g
    with part1 [of "n - r" "n + 1" "n - (k - 4 * r)"] assms show ?thesis
      by (intro exI [of _ "n - (k - 4 * r)"]) (simp add: algebra_simps)
  next
    case h
    with part2 [of "k - 5 * r" "n + 1" "n - r"] assms show ?thesis
      by (intro exI [of _ "n - r"]) (simp add: algebra_simps)
  qed
qed


lemma set_all_slots:
  "set (all_slots ring) = {(r, k). 0 \<le> r \<and> r < ring \<and> 0 \<le> k \<and> k < (if r > 0 then 6 * r else 1)}"
  by (auto simp: all_slots_def)

lemma distinct_concat_pairs:
  "distinct xs \<Longrightarrow> (\<And>r. distinct (f r)) \<Longrightarrow>
     distinct (concat (map (\<lambda>r. map (\<lambda>k. (r, k)) (f r)) xs))"
  by (induction xs) (auto simp: distinct_map inj_on_def)

lemma distinct_all_slots: "distinct (all_slots ring)"
  unfolding all_slots_def by (rule distinct_concat_pairs) simp_all

lemma sum_ring_sizes:
  "(\<Sum>r\<in>{0..int m}. if r > 0 then 6 * r else 1) = 3 * int m * int m + 3 * int m + 1"
proof (induction m)
  case 0
  then show ?case by simp
next
  case (Suc m)
  have s: "{0..int (Suc m)} = insert (int m + 1) {0..int m}"
    by auto
  have "(\<Sum>r\<in>{0..int (Suc m)}. if r > 0 then 6 * r else 1)
      = 6 * (int m + 1) + (\<Sum>r\<in>{0..int m}. if r > 0 then 6 * r else 1)"
    unfolding s by simp
  also have "\<dots> = 3 * int (Suc m) * int (Suc m) + 3 * int (Suc m) + 1"
    unfolding Suc.IH by (simp add: algebra_simps)
  finally show ?case .
qed

lemma length_all_slots:
  assumes "0 \<le> n"
  shows "int (length (all_slots (n + 1))) = 3 * n * n + 3 * n + 1"
proof -
  have "int (length (all_slots (n + 1)))
      = (\<Sum>r\<in>{0..n}. int (length (map (\<lambda>k. (r, k)) (py_range (if r > 0 then 6 * r else 1)))))"
    by (simp add: all_slots_def length_concat_sum)
  also have "\<dots> = (\<Sum>r\<in>{0..n}. if r > 0 then 6 * r else 1)"
    by (rule sum.cong) auto
  also have "\<dots> = (\<Sum>r\<in>{0..int (nat n)}. if r > 0 then 6 * r else 1)"
    using assms by simp
  also have "\<dots> = 3 * n * n + 3 * n + 1"
    unfolding sum_ring_sizes using assms by simp
  finally show ?thesis .
qed

text \<open>
  C9. For a core of \<open>ring\<close> rings, \<open>ring \<ge> 1\<close>, the row-by-row traversal of the
  \<open>hex_conf\<close> block has \<open>2 ring - 1\<close> rows and reads every slot of the full hexagonal
  lattice exactly once; row \<open>l\<close> is built from its distance to the centre line
  \<open>\<bar>ring - 1 - l\<bar>\<close> and has \<open>2 ring - 1 - \<bar>ring - 1 - l\<bar>\<close> entries (\<open>length_row_slots\<close>).
\<close>

theorem row_traversal_visits_each_slot_once:
  assumes "1 \<le> ring"
  shows "int (length (hex_rows ring)) = 2 * ring - 1
         \<and> distinct (concat (hex_rows ring))
         \<and> set (concat (hex_rows ring)) = set (all_slots ring)"
proof -
  define n where "n = ring - 1"
  with assms have n: "0 \<le> n" and ring: "ring = n + 1" by simp_all
  have sub: "set (all_slots ring) \<subseteq> set (concat (hex_rows ring))"
  proof
    fix x assume "x \<in> set (all_slots ring)"
    then obtain r k where x: "x = (r, k)" and rk: "0 \<le> r" "r \<le> n" "0 \<le> k"
        "k < (if r > 0 then 6 * r else 1)"
      by (auto simp: set_all_slots ring)
    from covered [OF rk] obtain l where "0 \<le> l" "l \<le> 2 * n"
        "(r, k) \<in> set (row_slots (n + 1) l)"
      by blast
    then show "x \<in> set (concat (hex_rows ring))"
      by (auto simp: x ring hex_rows_def)
  qed
  have len: "length (concat (hex_rows ring)) = length (all_slots ring)"
    using length_hex_rows_concat [OF n] length_all_slots [OF n] by (simp add: ring)
  have "card (set (all_slots ring)) \<le> card (set (concat (hex_rows ring)))"
    by (rule card_mono [OF _ sub]) simp
  moreover have "card (set (all_slots ring)) = length (all_slots ring)"
    by (rule distinct_card [OF distinct_all_slots])
  moreover have "card (set (concat (hex_rows ring))) \<le> length (concat (hex_rows ring))"
    by (rule card_length)
  ultimately have c: "card (set (concat (hex_rows ring))) = length (concat (hex_rows ring))"
    and c': "card (set (all_slots ring)) = card (set (concat (hex_rows ring)))"
    using len by simp_all
  have "distinct (concat (hex_rows ring))"
    by (rule card_distinct [OF c])
  moreover have "set (all_slots ring) = set (concat (hex_rows ring))"
    by (rule card_subset_eq [OF _ sub c']) simp
  moreover have "int (length (hex_rows ring)) = 2 * ring - 1"
    using assms by (simp add: hex_rows_def)
  ultimately show ?thesis by simp
qed

theorem row_traversal_visits_each_slot_once_witness:
  "(1::int) \<le> 2 \<and> int (length (hex_rows 2)) = 2 * 2 - 1
   \<and> distinct (concat (hex_rows 2))
   \<and> set (concat (hex_rows 2)) = set (all_slots 2)
   \<and> hex_rows 2 = [[(1, 5), (1, 0)], [(1, 4), (0, 0), (1, 1)], [(1, 3), (1, 2)]]"
proof -
  have h: "(1::int) \<le> 2" by simp
  have "hex_rows 2 = [[(1, 5), (1, 0)], [(1, 4), (0, 0), (1, 1)], [(1, 3), (1, 2)]]"
    by code_simp
  with row_traversal_visits_each_slot_once [OF h] show ?thesis by simp
qed

section \<open>Properties of the mesh densifier\<close>

text \<open>
  C8, evaluated where it fails: two layers of height \<open>0.5\<close> and the threshold \<open>1\<close>. No
  layer is split and the assembly line is written back unchanged, but \<open>print_list\<close> writes
  the last run of equal heights without its count: the output deck has the single layer
  height \<open>0.5\<close> after the layer count 2.
\<close>

theorem cormesh_drops_last_run:
  "cormesh (Some uniform_deck) 1
     = Inr [OtherLine ''GEOMETRY:'', LayerLine 2 [H (1/2)], FALine 1 [Star 2 7]]
   \<and> layer_heights uniform_deck = [[1/2, 1/2]]
   \<and> layer_heights [OtherLine ''GEOMETRY:'', LayerLine 2 [H (1/2)], FALine 1 [Star 2 7]]
       = [[1/2]]"
  by (simp add: cormesh_def uniform_deck_def print_list_def py_prefix_def)

section \<open>Repeated meshing\<close>

lemma unified_example: "unified 1 unified_heap unified_core"
  by code_simp

text \<open>
  C4 as stated fails: on the core of three sections with lower bounds 0, 10 and 11 the
  first run at tolerance 10 returns the mesh \<open>[5, 11, 500]\<close> and moves the bounds; the
  second run at the same tolerance returns \<open>[8, 500]\<close>.
\<close>

theorem meshing_twice_counterexample:
  "returned_mesh (Core_meshing close_heap close_core 10) = Some [5, 11, 500]
   \<and> returned_mesh
        (Core_meshing (fst (projr (Core_meshing close_heap close_core 10)))
                      (fst (snd (projr (Core_meshing close_heap close_core 10)))) 10)
       = Some [8, 500]"
  by code_simp

lemma separated_pairwise:
  "sorted_wrt (<) xs \<Longrightarrow> separated tolerance xs \<Longrightarrow> sorted_wrt (\<lambda>a b. b - a > tolerance) xs"
proof (induction xs rule: separated.induct)
  case (1 tolerance a b xs)
  then have ab: "b - a > tolerance" "a < b" and rest: "\<forall>c\<in>set xs. b < c" by auto
  from 1 have ih: "sorted_wrt (\<lambda>a b. b - a > tolerance) (b # xs)" by simp
  have "\<forall>c\<in>set xs. c - a > tolerance"
    using ab rest by fastforce
  with ab ih show ?case by simp
qed simp_all

lemma approximate_separated:
  "sorted_wrt (<) (b # xs) \<Longrightarrow> separated tolerance (b # xs) \<Longrightarrow>
     approximate tolerance acc [b] xs = (acc', buf') \<Longrightarrow>
     set acc' \<union> {averageHeight buf'} = set acc \<union> set (b # xs) \<and> length buf' > 0"
proof (induction xs arbitrary: b acc)
  case Nil
  then show ?case by (auto simp: averageHeight_def)
next
  case (Cons x xs)
  from Cons.prems have gap: "\<bar>x - b\<bar> > tolerance" and s: "sorted_wrt (<) (x # xs)"
    and sep: "separated tolerance (x # xs)" by auto
  from gap Cons.prems(3)
  have "approximate tolerance (List.insert (averageHeight [b]) acc) [x] xs = (acc', buf')"
    by (simp add: Let_def)
  from Cons.IH [OF s sep this] show ?case
    by (auto simp: averageHeight_def)
qed


lemma build_meshgrid_fixed:
  assumes "sorted_wrt (<) mesh" "separated tolerance mesh"
  shows "build_meshgrid tolerance mesh = mesh"
proof (cases mesh)
  case Nil
  then show ?thesis by (simp add: build_meshgrid_def)
next
  case (Cons b xs)
  obtain acc' buf' where a: "approximate tolerance [] [b] xs = (acc', buf')"
    by (cases "approximate tolerance [] [b] xs")
  then have a0: "approximate tolerance [] [] mesh = (acc', buf')"
    by (simp add: Cons)
  from approximate_separated [OF assms [unfolded Cons] a]
  have st: "set acc' \<union> {averageHeight buf'} = set mesh" and ne: "length buf' > 0"
    by (simp_all add: Cons)
  have "distinct (fst (approximate tolerance [] [] mesh))"
    by (rule approximate_distinct) simp
  with a0 have d: "distinct (List.insert (averageHeight buf') acc')"
    by (simp add: distinct_List_insert)
  have s: "set (List.insert (averageHeight buf') acc') = set mesh"
    using st by auto
  have "sort (List.insert (averageHeight buf') acc') = mesh"
  proof (rule sorted_distinct_set_unique)
    show "sorted (sort (List.insert (averageHeight buf') acc'))" by simp
    show "distinct (sort (List.insert (averageHeight buf') acc'))" using d by simp
    show "sorted mesh" "distinct mesh" using assms(1) by (simp_all add: strict_sorted_iff)
    show "set (sort (List.insert (averageHeight buf') acc')) = set mesh" using s by simp
  qed
  with ne show ?thesis
    by (simp add: build_meshgrid_def a0)
qed

lemma fold_fixed: "(\<And>x. x \<in> set xs \<Longrightarrow> f x h = h) \<Longrightarrow> fold f xs h = h"
  by (induction xs) simp_all

lemma snap_bound_fixed:
  assumes "sorted_wrt (\<lambda>a b. b - a > tolerance) mesh" "sorted_wrt (<) mesh"
    "g \<in> set mesh" "b \<in> set mesh"
  shows "snap_bound tolerance g b = b"
proof (cases "g = b")
  case True
  then show ?thesis by (simp add: snap_bound_def)
next
  case False
  from assms(3,4) obtain i j where ij: "i < length mesh" "j < length mesh"
      "mesh ! i = g" "mesh ! j = b"
    by (auto simp: in_set_conv_nth)
  with False have "i \<noteq> j" by auto
  then consider "i < j" | "j < i" by linarith
  then have "\<bar>g - b\<bar> > tolerance"
  proof cases
    case 1
    with assms(1,2) ij have "b - g > tolerance" "g < b"
      by (auto simp: sorted_wrt_iff_nth_less)
    then show ?thesis by simp
  next
    case 2
    with assms(1,2) ij have "g - b > tolerance" "b < g"
      by (auto simp: sorted_wrt_iff_nth_less)
    then show ?thesis by simp
  qed
  then show ?thesis by (simp add: snap_bound_def)
qed

lemma snap_section_fixed:
  "snap_bound tolerance g (fst (bounds (section_at h s))) = fst (bounds (section_at h s)) \<Longrightarrow>
   snap_bound tolerance g (snd (bounds (section_at h s))) = snd (bounds (section_at h s)) \<Longrightarrow>
   snap_section tolerance g s h = h"
  by (simp add: snap_section_def)

lemma set_collect_heights:
  "set (collect_heights h secs) =
     (\<Union>s\<in>set secs. {fst (bounds (section_at h s)), snd (bounds (section_at h s))})"
  by (auto simp: collect_heights_def)

text \<open>
  C4 (as amended). On a unified core \<open>Core.meshing\<close> returns the stored mesh and changes
  neither the core nor any section: a run on an already unified model changes nothing.
\<close>

theorem meshing_unified_fixed:
  assumes "unified tolerance h c"
  shows "Core_meshing h c tolerance = Inr (h, c, meshgrid c)"
proof -
  from assms have ne: "meshgrid c \<noteq> []" and so: "sorted_wrt (<) (meshgrid c)"
    and sep: "separated tolerance (meshgrid c)"
    and hs: "collect_heights h (sections c) = meshgrid c"
    and cool: "bounds (section_at h (coolant c))
               = (Min (set (meshgrid c)), Max (set (meshgrid c)))"
    by (simp_all add: unified_def)
  have mesh: "build_meshgrid tolerance (collect_heights h (sections c)) = meshgrid c"
    unfolding hs by (rule build_meshgrid_fixed [OF so sep])
  have pw: "sorted_wrt (\<lambda>a b. b - a > tolerance) (meshgrid c)"
    by (rule separated_pairwise [OF so sep])
  have inmesh: "fst (bounds (section_at h s)) \<in> set (meshgrid c)
                \<and> snd (bounds (section_at h s)) \<in> set (meshgrid c)"
    if "s \<in> set (sections c)" for s
    using that set_collect_heights [of h "sections c"] unfolding hs by auto
  have one: "snap_section tolerance g s h = h"
    if "g \<in> set (meshgrid c)" "s \<in> set (sections c)" for g s
    by (rule snap_section_fixed)
       (simp_all add: snap_bound_fixed [OF pw so that(1)] inmesh [OF that(2)])
  have snap: "snap_sections tolerance (sections c) (meshgrid c) h = h"
    unfolding snap_sections_def
    by (rule fold_fixed) (rule fold_fixed, rule one)
  show ?thesis
    using ne cool [symmetric] by (simp add: Core_meshing_def Let_def mesh snap)
qed

theorem meshing_unified_fixed_witness:
  "unified 1 unified_heap unified_core
   \<and> Core_meshing unified_heap unified_core 1 = Inr (unified_heap, unified_core, [0, 10, 20])"
  using meshing_unified_fixed [OF unified_example] unified_example
  by (simp add: unified_core_def)

end
